theory Spec2Isabelle
  imports Main "HOL-Library.Word" "HOL-Library.Sublist"
begin

section \<open>Python values used by smartsheet_gpt_agent.py\<close>

text \<open>
  A Python \<open>str\<close> is a sequence of Unicode code points, and \<open>len\<close> and slicing count
  code points; a \<open>bytes\<close> object is a sequence of octets. String literals of the source
  are written \<open>lit ''...''\<close>.
\<close>

type_synonym codepoint = nat
type_synonym pystr = "codepoint list"
type_synonym byte = "8 word"
type_synonym bytes = "byte list"

definition lit :: "string \<Rightarrow> pystr" where
  "lit s = map of_char s"

definition NL :: pystr where
  "NL = [10]"

text \<open>\<open>sub in s\<close> on strings: \<open>sub\<close> occurs in \<open>s\<close> as a contiguous run.\<close>

fun py_in :: "pystr \<Rightarrow> pystr \<Rightarrow> bool" where
  "py_in sub [] = (sub = [])"
| "py_in sub (c # cs) = (prefix sub (c # cs) \<or> py_in sub cs)"

text \<open>\<open>sep.join(xs)\<close>.\<close>

fun py_join :: "pystr \<Rightarrow> pystr list \<Rightarrow> pystr" where
  "py_join sep [] = []"
| "py_join sep [x] = x"
| "py_join sep (x # y # ys) = x @ sep @ py_join sep (y # ys)"

text \<open>\<open>str.isspace\<close> on one code point, and \<open>str.strip()\<close>.\<close>

definition isspace :: "codepoint \<Rightarrow> bool" where
  "isspace c \<longleftrightarrow>
     (9 \<le> c \<and> c \<le> 13) \<or> (28 \<le> c \<and> c \<le> 32) \<or> c = 0x85 \<or> c = 0xA0 \<or> c = 0x1680 \<or>
     (0x2000 \<le> c \<and> c \<le> 0x200A) \<or> c = 0x2028 \<or> c = 0x2029 \<or> c = 0x202F \<or>
     c = 0x205F \<or> c = 0x3000"

definition py_strip :: "pystr \<Rightarrow> pystr" where
  "py_strip s = rev (dropWhile isspace (rev (dropWhile isspace s)))"

text \<open>
  \<open>bytes.decode("utf-8")\<close> with the default strict error handler: the well-formed byte
  sequences of the Unicode standard (no overlong forms, no surrogates, nothing above
  U+10FFFF); \<open>None\<close> stands for the \<open>UnicodeDecodeError\<close> that Python raises.
\<close>

definition in_range :: "nat \<Rightarrow> nat \<Rightarrow> nat \<Rightarrow> bool" where
  "in_range lo hi b \<longleftrightarrow> lo \<le> b \<and> b \<le> hi"

fun utf8_decode :: "nat list \<Rightarrow> pystr option" where
  "utf8_decode [] = Some []"
| "utf8_decode (b0 # bs) =
     (if b0 < 0x80 then map_option ((#) b0) (utf8_decode bs)
      else if in_range 0xC2 0xDF b0 then
        (case bs of
           b1 # r \<Rightarrow>
             if in_range 0x80 0xBF b1
             then map_option ((#) ((b0 - 0xC0) * 64 + (b1 - 0x80))) (utf8_decode r)
             else None
         | _ \<Rightarrow> None)
      else if in_range 0xE0 0xEF b0 then
        (case bs of
           b1 # b2 # r \<Rightarrow>
             if in_range (if b0 = 0xE0 then 0xA0 else 0x80) (if b0 = 0xED then 0x9F else 0xBF) b1
                \<and> in_range 0x80 0xBF b2
             then map_option
                    ((#) ((b0 - 0xE0) * 4096 + (b1 - 0x80) * 64 + (b2 - 0x80)))
                    (utf8_decode r)
             else None
         | _ \<Rightarrow> None)
      else if in_range 0xF0 0xF4 b0 then
        (case bs of
           b1 # b2 # b3 # r \<Rightarrow>
             if in_range (if b0 = 0xF0 then 0x90 else 0x80) (if b0 = 0xF4 then 0x8F else 0xBF) b1
                \<and> in_range 0x80 0xBF b2 \<and> in_range 0x80 0xBF b3
             then map_option
                    ((#) ((b0 - 0xF0) * 262144 + (b1 - 0x80) * 4096 + (b2 - 0x80) * 64
                          + (b3 - 0x80)))
                    (utf8_decode r)
             else None
         | _ \<Rightarrow> None)
      else None)"

definition decode_utf8 :: "bytes \<Rightarrow> pystr option" where
  "decode_utf8 bs = utf8_decode (map unat bs)"

text \<open>Truthiness of an optional string (\<open>None\<close> and \<open>""\<close> are falsy).\<close>

fun truthy :: "pystr option \<Rightarrow> bool" where
  "truthy None = False"
| "truthy (Some s) = (s \<noteq> [])"

text \<open>An optional string inside an f-string: \<open>None\<close> prints as \<open>None\<close>.\<close>

fun format_opt :: "pystr option \<Rightarrow> pystr" where
  "format_opt None = lit ''None''"
| "format_opt (Some s) = s"

section \<open>Exceptions, JSON and responses\<close>

text \<open>
  Exceptions raised by the libraries carry their message. The exceptions the interpreter
  itself raises in this program are kept symbolic; the text \<open>str(e)\<close> gives them belongs
  to the Python runtime and is a field of the environment below.
\<close>

datatype builtin_error =
    UnicodeDecodeError bytes
  | TypeError_in_None
  | IndexError_choices
  | AttributeError_name

datatype exn =
    RequestException pystr
  | OtherException pystr
  | Builtin builtin_error

datatype json =
    JNull
  | JStr pystr
  | JInt int
  | JObj "(pystr \<times> json) list"

fun json_opt_str :: "pystr option \<Rightarrow> json" where
  "json_opt_str None = JNull"
| "json_opt_str (Some s) = JStr s"

fun json_opt_int :: "int option \<Rightarrow> json" where
  "json_opt_int None = JNull"
| "json_opt_int (Some n) = JInt n"

text \<open>
  A response is what \<open>jsonify(...)\<close> with a status code gives, or a response the
  framework produces by itself (no view bound to the URL, an exception that leaves a view).
\<close>

datatype response =
    Response json nat
  | FrameworkError nat

fun status_of :: "response \<Rightarrow> nat" where
  "status_of (Response b s) = s"
| "status_of (FrameworkError s) = s"

definition error_response :: "pystr \<Rightarrow> nat \<Rightarrow> response" where
  "error_response msg code = Response (JObj [(lit ''error'', JStr msg)]) code"

section \<open>Configuration and the external services\<close>

text \<open>\<open>os.getenv\<close> gives \<open>None\<close> for a variable that is not set.\<close>

record config =
  SMARTSHEET_API_KEY :: "pystr option"
  OPENAI_API_KEY :: "pystr option"
  SECRET_CODE :: "pystr option"

definition HEADERS :: "config \<Rightarrow> (pystr \<times> pystr) list" where
  "HEADERS cfg = [(lit ''Authorization'', lit ''Bearer '' @ format_opt (SMARTSHEET_API_KEY cfg))]"

definition BASE_URL :: pystr where
  "BASE_URL = lit ''https://api.smartsheet.com/2.0''"

text \<open>
  The object \<open>ss_client.Attachments.get_attachment\<close> returns: an attachment, each of
  whose fields may be \<open>None\<close>, or the client's error object, which has none of these
  attributes.
\<close>

record attachment =
  name :: "pystr option"
  mime_type :: "pystr option"
  url :: "pystr option"
  size_in_kb :: "int option"

datatype ss_object =
    Attachment attachment
  | ErrorObject

record get_args =
  get_url :: pystr
  get_headers :: "(pystr \<times> pystr) list"
  allow_redirects :: bool

record http_response =
  status_code :: nat
  resp_headers :: "(pystr \<times> pystr) list"
  resp_content :: bytes
  resp_text :: pystr

type_synonym message = "(pystr \<times> pystr) list"

text \<open>
  A completion: the \<open>message.content\<close> of each choice, and what \<open>jsonify\<close> makes of the
  usage object (it raises for an object it cannot serialise).
\<close>

record chat_response =
  choices :: "pystr option list"
  usage_json :: "exn + json"

text \<open>
  Everything outside the program: the storage service's client, the HTTP client, the
  archive writer, the three document parsers, the completion API, and the messages of
  the interpreter's own exceptions. \<open>zip_writestr\<close> is the archive that
  \<open>ZipFile.writestr(filename, file_bytes)\<close> leaves in the buffer, or the exception it
  raises (for a name it does not accept).
\<close>

record world =
  get_attachment :: "pystr \<Rightarrow> pystr \<Rightarrow> exn + ss_object"
  requests_get :: "get_args \<Rightarrow> exn + http_response"
  zip_writestr :: "pystr option \<Rightarrow> bytes \<Rightarrow> exn + bytes"
  fitz_page_texts :: "bytes \<Rightarrow> exn + pystr list"
  excel_to_string :: "bytes \<Rightarrow> exn + pystr"
  docx_paragraphs :: "bytes \<Rightarrow> exn + pystr list"
  chat_completions_create :: "pystr \<Rightarrow> message list \<Rightarrow> exn + chat_response"
  str_builtin :: "builtin_error \<Rightarrow> pystr"

fun str_exn :: "world \<Rightarrow> exn \<Rightarrow> pystr" where
  "str_exn w (RequestException m) = m"
| "str_exn w (OtherException m) = m"
| "str_exn w (Builtin b) = str_builtin w b"

text \<open>
  What one request does, in order: the framework calling the view function, the outbound
  calls, and the runs of an extraction branch.
\<close>

datatype branch = PdfBranch | TextBranch | SpreadsheetBranch | WordBranch

datatype event =
    GetAttachment pystr pystr
  | RequestsGet get_args
  | Extract branch bytes
  | ChatCreate pystr "message list"
  | ViewCalled

fun is_model_call :: "event \<Rightarrow> bool" where
  "is_model_call (ChatCreate m ms) = True"
| "is_model_call e = False"

fun is_extract :: "event \<Rightarrow> bool" where
  "is_extract (Extract b bs) = True"
| "is_extract e = False"

section \<open>The size guard\<close>

definition size_limit :: nat where
  "size_limit = 75 * 1024 * 1024"

definition compress_if_large ::
    "world \<Rightarrow> bytes \<Rightarrow> pystr option \<Rightarrow> exn + bytes \<times> pystr option \<times> pystr option" where
  "compress_if_large w file_bytes filename =
     (if length file_bytes > size_limit
      then (case zip_writestr w filename file_bytes of
              Inl e \<Rightarrow> Inl e
            | Inr archive \<Rightarrow>
                Inr (archive, Some (lit ''application/zip''),
                     Some (format_opt filename @ lit ''.zip'')))
      else Inr (file_bytes, None, None))"

section \<open>The access gate\<close>

text \<open>
  A request: the view the URL is bound to, with its path arguments (or the JSON body),
  and the value of \<open>request.headers.get("X-Internal-Access")\<close>. \<open>NoView\<close> is a request
  the framework answers by itself once the gate has passed it (no rule matches, wrong
  method), with the given status. The body of a POST to /analyze is a JSON object whose
  values are strings, as the list of its entries (\<open>data.get(k)\<close> is \<open>map_of data k\<close>,
  \<open>None\<close> for a key that is missing or \<open>null\<close>), or
  a body for which \<open>request.json\<close> aborts with a status of the framework.
\<close>

datatype request_json =
    BadJson nat
  | JsonObject "(pystr \<times> pystr) list"

datatype route =
    Healthcheck
  | TestDownloadDebug pystr
  | FallbackGetAttachment pystr pystr
  | AnalyzeContent request_json
  | AnalyzeAttachment pystr pystr
  | NoView nat

record request =
  endpoint :: route
  x_internal_access :: "pystr option"

definition auth_check :: "config \<Rightarrow> request \<Rightarrow> response option" where
  "auth_check cfg req =
     (if endpoint req \<noteq> Healthcheck then
        (if x_internal_access req \<noteq> SECRET_CODE cfg
         then Some (error_response (lit ''Unauthorized. Invalid internal access code.'') 403)
         else None)
      else None)"

section \<open>The views\<close>

definition healthcheck :: response where
  "healthcheck = Response (JObj [(lit ''status'', JStr (lit ''ok''))]) 200"

definition test_download_debug :: "config \<Rightarrow> world \<Rightarrow> pystr \<Rightarrow> response \<times> event list" where
  "test_download_debug cfg w attachment_id =
     (let args = \<lparr>get_url = BASE_URL @ lit ''/attachments/'' @ attachment_id @ lit ''/download'',
                   get_headers = HEADERS cfg, allow_redirects = False\<rparr>
      in (case requests_get w args of
            Inr res \<Rightarrow>
              Response (JObj [(lit ''status_code'', JInt (int (status_code res))),
                              (lit ''headers'', JObj (map (\<lambda>(k, v). (k, JStr v)) (resp_headers res))),
                              (lit ''text_snippet'', JStr (take 200 (resp_text res)))]) 200
          | Inl (RequestException m) \<Rightarrow> error_response m 502
          | Inl e \<Rightarrow> FrameworkError 500,
          [RequestsGet args]))"

definition fallback_get_attachment :: "world \<Rightarrow> pystr \<Rightarrow> pystr \<Rightarrow> response \<times> event list" where
  "fallback_get_attachment w sheet_id attachment_id =
     (case get_attachment w sheet_id attachment_id of
        Inr (Attachment att) \<Rightarrow>
          Response (JObj [(lit ''name'', json_opt_str (name att)),
                          (lit ''type'', json_opt_str (mime_type att)),
                          (lit ''url'', json_opt_str (url att)),
                          (lit ''size'', json_opt_int (size_in_kb att))]) 200
      | Inr ErrorObject \<Rightarrow> error_response (str_exn w (Builtin AttributeError_name)) 500
      | Inl e \<Rightarrow> error_response (str_exn w e) 500,
      [GetAttachment sheet_id attachment_id])"

definition openai_error :: "world \<Rightarrow> exn \<Rightarrow> response" where
  "openai_error w e = error_response (lit ''OpenAI error: '' @ str_exn w e) 502"

definition analyze_content :: "world \<Rightarrow> request_json \<Rightarrow> response \<times> event list" where
  "analyze_content w body =
     (case body of
        BadJson s \<Rightarrow> (FrameworkError s, [])
      | JsonObject data \<Rightarrow>
          (case (map_of data (lit ''content''), map_of data (lit ''query'')) of
             (Some content, Some query) \<Rightarrow>
               if content = [] \<or> query = []
               then (error_response (lit ''Both 'content' and 'query' are required.'') 400, [])
               else
                 (let messages =
                        [[(lit ''role'', lit ''system''),
                          (lit ''content'', lit ''You are a document analyst.'')],
                         [(lit ''role'', lit ''user''),
                          (lit ''content'', query @ NL @ NL @ take 8000 content)]]
                  in (case chat_completions_create w (lit ''gpt-4'') messages of
                        Inl e \<Rightarrow> openai_error w e
                      | Inr chat \<Rightarrow>
                          (case choices chat of
                             [] \<Rightarrow> openai_error w (Builtin IndexError_choices)
                           | result # _ \<Rightarrow>
                               (case usage_json chat of
                                  Inl e \<Rightarrow> openai_error w e
                                | Inr u \<Rightarrow>
                                    Response (JObj [(lit ''response'', json_opt_str result),
                                                    (lit ''usage'', u)]) 200)),
                      [ChatCreate (lit ''gpt-4'') messages]))
           | _ \<Rightarrow> (error_response (lit ''Both 'content' and 'query' are required.'') 400, [])))"

text \<open>
  \<open>analyze_attachment\<close> is three \<open>try\<close> blocks in a row; each is a definition of its own
  here, giving either the response the block returns or the values the next block uses.
\<close>

definition fetch_failed :: "world \<Rightarrow> exn \<Rightarrow> response" where
  "fetch_failed w e = error_response (lit ''Attachment fetch failed: '' @ str_exn w e) 400"

definition plain_get :: "pystr \<Rightarrow> get_args" where
  "plain_get u = \<lparr>get_url = u, get_headers = [], allow_redirects = True\<rparr>"

definition missing_url :: response where
  "missing_url = error_response (lit ''Attachment object missing URL.'') 404"

definition compression_notice :: "pystr option \<Rightarrow> response" where
  "compression_notice compressed_name =
     Response (JObj [(lit ''note'', JStr (lit ''File was compressed due to size.'')),
                     (lit ''filename'', json_opt_str compressed_name)]) 200"

definition fetch_block :: "world \<Rightarrow> pystr \<Rightarrow> pystr \<Rightarrow> (response + attachment \<times> bytes) \<times> event list" where
  "fetch_block w sheet_id attachment_id =
     (case get_attachment w sheet_id attachment_id of
        Inl e \<Rightarrow> (Inl (fetch_failed w e), [GetAttachment sheet_id attachment_id])
      | Inr ErrorObject \<Rightarrow> (Inl missing_url, [GetAttachment sheet_id attachment_id])
      | Inr (Attachment att) \<Rightarrow>
          (case url att of
             None \<Rightarrow> (Inl missing_url, [GetAttachment sheet_id attachment_id])
           | Some u \<Rightarrow>
               if u = [] then (Inl missing_url, [GetAttachment sheet_id attachment_id])
               else
                 (case requests_get w (plain_get u) of
                    Inl e \<Rightarrow> Inl (fetch_failed w e)
                  | Inr file_res \<Rightarrow>
                      (case compress_if_large w (resp_content file_res) (name att) of
                         Inl e \<Rightarrow> Inl (fetch_failed w e)
                       | Inr (file_bytes, compressed_type, compressed_name) \<Rightarrow>
                           if truthy compressed_type then Inl (compression_notice compressed_name)
                           else Inr (att, file_bytes)),
                  [GetAttachment sheet_id attachment_id, RequestsGet (plain_get u)])))"

definition parsing_failed :: "world \<Rightarrow> exn \<Rightarrow> response" where
  "parsing_failed w e = error_response (lit ''Document parsing failed: '' @ str_exn w e) 422"

definition unsupported :: "pystr \<Rightarrow> response" where
  "unsupported content_type = error_response (lit ''Unsupported file type: '' @ content_type) 415"

definition extract_block :: "world \<Rightarrow> pystr option \<Rightarrow> bytes \<Rightarrow> (response + pystr) \<times> event list" where
  "extract_block w content_type file_bytes =
     (case content_type of
        None \<Rightarrow> (Inl (parsing_failed w (Builtin TypeError_in_None)), [])
      | Some ct \<Rightarrow>
          if py_in (lit ''pdf'') ct then
            (case fitz_page_texts w file_bytes of
               Inl e \<Rightarrow> Inl (parsing_failed w e)
             | Inr pages \<Rightarrow> Inr (py_join NL pages),
             [Extract PdfBranch file_bytes])
          else if py_in (lit ''text'') ct then
            (case decode_utf8 file_bytes of
               None \<Rightarrow> Inl (parsing_failed w (Builtin (UnicodeDecodeError file_bytes)))
             | Some raw_text \<Rightarrow> Inr raw_text,
             [Extract TextBranch file_bytes])
          else if py_in (lit ''spreadsheet'') ct \<or> py_in (lit ''excel'') ct then
            (case excel_to_string w file_bytes of
               Inl e \<Rightarrow> Inl (parsing_failed w e)
             | Inr raw_text \<Rightarrow> Inr raw_text,
             [Extract SpreadsheetBranch file_bytes])
          else if py_in (lit ''wordprocessingml'') ct \<or> py_in (lit ''msword'') ct then
            (case docx_paragraphs w file_bytes of
               Inl e \<Rightarrow> Inl (parsing_failed w e)
             | Inr paras \<Rightarrow> Inr (py_join NL (filter (\<lambda>t. t \<noteq> []) (map py_strip paras))),
             [Extract WordBranch file_bytes])
          else (Inl (unsupported ct), []))"

definition model_block :: "world \<Rightarrow> pystr \<Rightarrow> response \<times> event list" where
  "model_block w raw_text =
     (let messages =
            [[(lit ''role'', lit ''system''),
              (lit ''content'', lit ''You are a document analyst.'')],
             [(lit ''role'', lit ''user''),
              (lit ''content'', lit ''Analyze this document:'' @ NL @ NL @ take 8000 raw_text)]]
      in (case chat_completions_create w (lit ''gpt-4'') messages of
            Inl e \<Rightarrow> openai_error w e
          | Inr chat \<Rightarrow>
              (case choices chat of
                 [] \<Rightarrow> openai_error w (Builtin IndexError_choices)
               | analysis # _ \<Rightarrow> Response (JObj [(lit ''analysis'', json_opt_str analysis)]) 200),
          [ChatCreate (lit ''gpt-4'') messages]))"

definition extract_failed :: response where
  "extract_failed = error_response (lit ''Failed to extract text.'') 422"

definition analyze_attachment :: "world \<Rightarrow> pystr \<Rightarrow> pystr \<Rightarrow> response \<times> event list" where
  "analyze_attachment w sheet_id attachment_id =
     (case fetch_block w sheet_id attachment_id of
        (Inl rv, t1) \<Rightarrow> (rv, t1)
      | (Inr (att, file_bytes), t1) \<Rightarrow>
          (case extract_block w (mime_type att) file_bytes of
             (Inl rv, t2) \<Rightarrow> (rv, t1 @ t2)
           | (Inr raw_text, t2) \<Rightarrow>
               if raw_text = [] then (extract_failed, t1 @ t2)
               else (case model_block w raw_text of (rv, t3) \<Rightarrow> (rv, t1 @ t2 @ t3))))"

section \<open>One request through the application\<close>

text \<open>
  The framework runs the \<open>before_request\<close> function first; a value it returns is the
  response and the view is not called. Otherwise the view bound to the URL is called.
\<close>

definition dispatch_request :: "config \<Rightarrow> world \<Rightarrow> request \<Rightarrow> response \<times> event list" where
  "dispatch_request cfg w req =
     (case endpoint req of
        NoView s \<Rightarrow> (FrameworkError s, [])
      | Healthcheck \<Rightarrow> (healthcheck, [ViewCalled])
      | TestDownloadDebug attachment_id \<Rightarrow>
          (case test_download_debug cfg w attachment_id of (rv, t) \<Rightarrow> (rv, ViewCalled # t))
      | FallbackGetAttachment sheet_id attachment_id \<Rightarrow>
          (case fallback_get_attachment w sheet_id attachment_id of (rv, t) \<Rightarrow> (rv, ViewCalled # t))
      | AnalyzeContent body \<Rightarrow>
          (case analyze_content w body of (rv, t) \<Rightarrow> (rv, ViewCalled # t))
      | AnalyzeAttachment sheet_id attachment_id \<Rightarrow>
          (case analyze_attachment w sheet_id attachment_id of (rv, t) \<Rightarrow> (rv, ViewCalled # t)))"

definition full_dispatch_request :: "config \<Rightarrow> world \<Rightarrow> request \<Rightarrow> response \<times> event list" where
  "full_dispatch_request cfg w req =
     (case auth_check cfg req of
        Some rv \<Rightarrow> (rv, [])
      | None \<Rightarrow> dispatch_request cfg w req)"

text \<open>The routes that are bound to a view function of the application.\<close>

fun has_view :: "route \<Rightarrow> bool" where
  "has_view (NoView s) = False"
| "has_view r = True"

section \<open>The dispatch order as the specification words it\<close>

text \<open>
  The specification gives the extractor as a priority list: the first entry one of whose
  keywords occurs in the MIME type wins. This definition follows those words, with the
  library's \<open>sublist\<close> for "occurs in"; the theorems compare it with \<open>extract_block\<close>.
\<close>

definition dispatch_order :: "(branch \<times> pystr list) list" where
  "dispatch_order =
     [(PdfBranch, [lit ''pdf'']),
      (TextBranch, [lit ''text'']),
      (SpreadsheetBranch, [lit ''spreadsheet'', lit ''excel'']),
      (WordBranch, [lit ''wordprocessingml'', lit ''msword''])]"

definition first_match :: "pystr \<Rightarrow> branch option" where
  "first_match ct =
     map_option fst (find (\<lambda>(b, keys). list_ex (\<lambda>k. sublist k ct) keys) dispatch_order)"

section \<open>Concrete environments\<close>

definition notes_txt :: attachment where
  "notes_txt = \<lparr>name = Some (lit ''notes.txt''), mime_type = Some (lit ''text/plain''),
                url = Some (lit ''https://files.example/notes.txt''), size_in_kb = Some 1\<rparr>"

definition refused :: exn where
  "refused = RequestException (lit ''connection refused'')"

text \<open>
  An archive writer that refuses a missing and an empty entry name, as the library's does,
  and otherwise stores the bytes.
\<close>

definition example_writestr :: "pystr option \<Rightarrow> bytes \<Rightarrow> exn + bytes" where
  "example_writestr filename file_bytes =
     (case filename of
        None \<Rightarrow>
          Inl (OtherException
                 ([39] @ lit ''NoneType'' @ [39] @ lit '' object has no attribute '' @ [39]
                  @ lit ''find'' @ [39]))
      | Some n \<Rightarrow>
          if n = [] then Inl (OtherException (lit ''string index out of range''))
          else Inr file_bytes)"

text \<open>Every service is unreachable.\<close>

definition offline_world :: world where
  "offline_world =
     \<lparr>get_attachment = (\<lambda>s a. Inl refused),
      requests_get = (\<lambda>g. Inl refused),
      zip_writestr = example_writestr,
      fitz_page_texts = (\<lambda>b. Inl (OtherException (lit ''cannot open broken document''))),
      excel_to_string = (\<lambda>b. Inl (OtherException (lit ''File is not a zip file''))),
      docx_paragraphs = (\<lambda>b. Inl (OtherException (lit ''File is not a zip file''))),
      chat_completions_create = (\<lambda>m ms. Inl refused),
      str_builtin = (\<lambda>b. lit ''builtin error'')\<rparr>"

text \<open>
  The storage service resolves every reference to the given attachment and every download
  gives the given bytes; the PDF parser finds one page of text; the model answers.
\<close>

definition serving_world :: "attachment \<Rightarrow> bytes \<Rightarrow> world" where
  "serving_world att file =
     offline_world
       \<lparr>get_attachment := (\<lambda>s a. Inr (Attachment att)),
        requests_get := (\<lambda>g. Inr \<lparr>status_code = 200, resp_headers = [], resp_content = file,
                                     resp_text = []\<rparr>),
        fitz_page_texts := (\<lambda>b. Inr [lit ''Quarterly report'']),
        chat_completions_create :=
          (\<lambda>m ms. Inr \<lparr>choices = [Some (lit ''A summary.'')], usage_json = Inr (JObj [])\<rparr>)\<rparr>"

text \<open>The metadata resolves, the download does not.\<close>

definition no_download_world :: world where
  "no_download_world = offline_world \<lparr>get_attachment := (\<lambda>s a. Inr (Attachment notes_txt))\<rparr>"

definition big_file :: bytes where
  "big_file = 0xFF # replicate (75 * 1024 * 1024) 0xFF"

definition unset_secret :: config where
  "unset_secret = \<lparr>SMARTSHEET_API_KEY = Some (lit ''k1''), OPENAI_API_KEY = Some (lit ''k2''),
                    SECRET_CODE = None\<rparr>"

definition with_secret :: config where
  "with_secret = \<lparr>SMARTSHEET_API_KEY = Some (lit ''k1''), OPENAI_API_KEY = Some (lit ''k2''),
                   SECRET_CODE = Some (lit ''s3cret'')\<rparr>"

section \<open>Auxiliary facts\<close>

lemma py_in_sublist: "py_in sub s \<longleftrightarrow> sublist sub s"
  by (induction s) (simp_all add: sublist_Cons_right)

lemma fetch_block_ok:
  assumes "get_attachment w s a = Inr (Attachment att)" and "url att = Some u" and "u \<noteq> []"
    and "requests_get w (plain_get u) = Inr res" and "length (resp_content res) \<le> size_limit"
  shows "fetch_block w s a = (Inr (att, resp_content res), [GetAttachment s a, RequestsGet (plain_get u)])"
  using assms by (simp add: fetch_block_def compress_if_large_def)

lemma fetch_block_large:
  assumes "get_attachment w s a = Inr (Attachment att)" and "url att = Some u" and "u \<noteq> []"
    and "requests_get w (plain_get u) = Inr res" and "size_limit < length (resp_content res)"
  shows "fetch_block w s a =
           (Inl (case zip_writestr w (name att) (resp_content res) of
                   Inl e \<Rightarrow> fetch_failed w e
                 | Inr archive \<Rightarrow>
                     compression_notice (Some (format_opt (name att) @ lit ''.zip''))),
            [GetAttachment s a, RequestsGet (plain_get u)])"
proof -
  have "lit ''application/zip'' \<noteq> []" by (simp add: lit_def)
  then show ?thesis
    using assms by (simp add: fetch_block_def compress_if_large_def split: sum.splits)
qed

lemma fetch_block_quiet:
  "\<not> list_ex is_model_call (snd (fetch_block w s a)) \<and> \<not> list_ex is_extract (snd (fetch_block w s a))"
  by (simp add: fetch_block_def split: sum.splits ss_object.splits option.splits prod.splits)

lemma extract_block_no_model: "\<not> list_ex is_model_call (snd (extract_block w ct bs))"
  by (simp add: extract_block_def split: option.splits)

lemma extract_block_first_match:
  "snd (extract_block w (Some ct) bs) = (case first_match ct of Some b \<Rightarrow> [Extract b bs] | None \<Rightarrow> [])"
  by (simp add: extract_block_def first_match_def dispatch_order_def py_in_sublist)

lemma extract_block_unsupported:
  "first_match ct = None \<Longrightarrow> fst (extract_block w (Some ct) bs) = Inl (unsupported ct)"
  by (simp add: extract_block_def first_match_def dispatch_order_def py_in_sublist split: if_splits)

lemma model_block_events: "\<not> list_ex is_extract (snd (model_block w t))"
  by (simp add: model_block_def Let_def)

lemma utf8_decode_rejects_FF: "decode_utf8 [0xFF] = None"
  by (simp add: decode_utf8_def in_range_def)

lemma utf8_decode_example:
  "decode_utf8 [0x68, 0x69, 0xC3, 0xA9, 0xE2, 0x82, 0xAC, 0xF0, 0x9F, 0x98, 0x80]
     = Some [0x68, 0x69, 0xE9, 0x20AC, 0x1F600]"
  by (simp add: decode_utf8_def in_range_def)

lemma utf8_decode_rejects_surrogate_and_overlong:
  "decode_utf8 [0xED, 0xA0, 0x80] = None \<and> decode_utf8 [0xC0, 0x80] = None
   \<and> decode_utf8 [0xE2, 0x82] = None"
  by (simp add: decode_utf8_def in_range_def)

lemma big_file_length: "length big_file = 75 * 1024 * 1024 + 1"
  by (simp add: big_file_def)

lemma big_file_undecodable: "decode_utf8 big_file = None"
  by (simp add: big_file_def decode_utf8_def in_range_def)




lemma serving_world_writestr:
  "zip_writestr (serving_world att file) = example_writestr"
  by (simp add: serving_world_def offline_world_def)

lemma first_match_chain:
  "first_match ct =
     (if py_in (lit ''pdf'') ct then Some PdfBranch
      else if py_in (lit ''text'') ct then Some TextBranch
      else if py_in (lit ''spreadsheet'') ct \<or> py_in (lit ''excel'') ct then Some SpreadsheetBranch
      else if py_in (lit ''wordprocessingml'') ct \<or> py_in (lit ''msword'') ct then Some WordBranch
      else None)"
  by (simp add: first_match_def dispatch_order_def py_in_sublist)

lemma serving_world_get:
  "get_attachment (serving_world att file) s a = Inr (Attachment att)"
  by (simp add: serving_world_def)

lemma serving_world_download:
  "requests_get (serving_world att file) g =
     Inr \<lparr>status_code = 200, resp_headers = [], resp_content = file, resp_text = []\<rparr>"
  by (simp add: serving_world_def)

lemma notes_url: "url notes_txt = Some (lit ''https://files.example/notes.txt'')"
  by (simp add: notes_txt_def)

lemma notes_url_nonempty: "lit ''https://files.example/notes.txt'' \<noteq> []"
  by (simp add: lit_def)

lemma serving_world_text:
  "extract_block (serving_world att file) (Some (lit ''text/plain'')) bs =
     (case decode_utf8 bs of
        None \<Rightarrow> Inl (parsing_failed (serving_world att file) (Builtin (UnicodeDecodeError bs)))
      | Some t \<Rightarrow> Inr t,
      [Extract TextBranch bs])"
  by (simp add: extract_block_def lit_def)

section \<open>The access gate rejects a header that differs from the secret\<close>


text \<open>
  Claim C1, as amended. For every request to a route other than the liveness route, if
  the value \<open>request.headers.get("X-Internal-Access")\<close> (which is \<open>None\<close> when the header
  is absent) differs from the configured secret (which is \<open>None\<close> when the environment
  variable is unset), the response is 403 with the JSON error body, the view is not called
  and no outbound call is made: the trace of the request is empty, whatever the
  environment.
\<close>

theorem gate_rejects_mismatch:
  assumes "endpoint req \<noteq> Healthcheck" and "x_internal_access req \<noteq> SECRET_CODE cfg"
  shows "full_dispatch_request cfg w req =
           (Response (JObj [(lit ''error'', JStr (lit ''Unauthorized. Invalid internal access code.''))]) 403,
            [])"
  using assms by (simp add: full_dispatch_request_def auth_check_def error_response_def)

text \<open>
  The amended claim C1 at a request without the header, with a secret configured.
\<close>

theorem gate_rejects_mismatch_witness:
  "endpoint \<lparr>endpoint = AnalyzeAttachment (lit ''123'') (lit ''456''), x_internal_access = None\<rparr>
     \<noteq> Healthcheck
   \<and> x_internal_access \<lparr>endpoint = AnalyzeAttachment (lit ''123'') (lit ''456''),
                          x_internal_access = None\<rparr> \<noteq> SECRET_CODE with_secret
   \<and> full_dispatch_request with_secret (serving_world notes_txt [0x68, 0x69])
        \<lparr>endpoint = AnalyzeAttachment (lit ''123'') (lit ''456''), x_internal_access = None\<rparr>
      = (Response (JObj [(lit ''error'', JStr (lit ''Unauthorized. Invalid internal access code.''))]) 403,
         [])"
  using gate_rejects_mismatch
    [of "\<lparr>endpoint = AnalyzeAttachment (lit ''123'') (lit ''456''), x_internal_access = None\<rparr>"
        with_secret "serving_world notes_txt [0x68, 0x69]"]
  by (simp add: with_secret_def)

text \<open>
  Claim C1 as stated fails: with the secret unset, a request to the attachment route
  that carries no X-Internal-Access header is not answered with 403; the view is called
  and the storage service is contacted.
\<close>

theorem gate_open_when_secret_unset_counterexample:
  "x_internal_access \<lparr>endpoint = AnalyzeAttachment (lit ''123'') (lit ''456''),
                       x_internal_access = None\<rparr> = None
   \<and> full_dispatch_request unset_secret offline_world
        \<lparr>endpoint = AnalyzeAttachment (lit ''123'') (lit ''456''), x_internal_access = None\<rparr>
      = (Response (JObj [(lit ''error'', JStr (lit ''Attachment fetch failed: connection refused''))]) 400,
         [ViewCalled, GetAttachment (lit ''123'') (lit ''456'')])"
  by (simp add: full_dispatch_request_def auth_check_def unset_secret_def dispatch_request_def
      analyze_attachment_def fetch_block_def offline_world_def fetch_failed_def error_response_def
      refused_def lit_def)

section \<open>Failures of the storage service in the attachment pipeline\<close>


text \<open>
  Claim C2, as amended. In the attachment pipeline, an exception raised by the storage
  client during metadata resolution, or by the HTTP client during the byte download,
  surfaces as a 400 whose error message is \<open>Attachment fetch failed: \<close> followed by the
  exception's message.
\<close>

theorem fetch_exception_is_400:
  assumes "get_attachment w s a = Inl e
           \<or> (\<exists>att u. get_attachment w s a = Inr (Attachment att) \<and> url att = Some u \<and> u \<noteq> []
                       \<and> requests_get w (plain_get u) = Inl e)"
  shows "fst (analyze_attachment w s a) =
           Response (JObj [(lit ''error'', JStr (lit ''Attachment fetch failed: '' @ str_exn w e))]) 400"
  using assms
  by (auto simp add: analyze_attachment_def fetch_block_def fetch_failed_def error_response_def)

text \<open>
  The amended claim C2 at both failures: the metadata call is refused, and the metadata
  resolves but the download is refused.
\<close>

theorem fetch_exception_is_400_witness:
  "get_attachment offline_world (lit ''123'') (lit ''456'') = Inl refused
   \<and> fst (analyze_attachment offline_world (lit ''123'') (lit ''456'')) =
       Response (JObj [(lit ''error'', JStr (lit ''Attachment fetch failed: '' @ str_exn offline_world refused))]) 400
   \<and> get_attachment no_download_world (lit ''123'') (lit ''456'') = Inr (Attachment notes_txt)
   \<and> requests_get no_download_world (plain_get (lit ''https://files.example/notes.txt'')) = Inl refused
   \<and> fst (analyze_attachment no_download_world (lit ''123'') (lit ''456'')) =
       Response (JObj [(lit ''error'', JStr (lit ''Attachment fetch failed: '' @ str_exn no_download_world refused))]) 400"
proof -
  have m: "get_attachment offline_world (lit ''123'') (lit ''456'') = Inl refused"
    by (simp add: offline_world_def)
  have g: "get_attachment no_download_world (lit ''123'') (lit ''456'') = Inr (Attachment notes_txt)"
    by (simp add: no_download_world_def)
  have u: "url notes_txt = Some (lit ''https://files.example/notes.txt'')"
    by (simp add: notes_txt_def)
  have n: "lit ''https://files.example/notes.txt'' \<noteq> []"
    by (simp add: lit_def)
  have d: "requests_get no_download_world (plain_get (lit ''https://files.example/notes.txt'')) = Inl refused"
    by (simp add: no_download_world_def offline_world_def)
  from g u n d have h: "\<exists>att u. get_attachment no_download_world (lit ''123'') (lit ''456'') = Inr (Attachment att)
      \<and> url att = Some u \<and> u \<noteq> [] \<and> requests_get no_download_world (plain_get u) = Inl refused"
    by blast
  show ?thesis
    using m g d fetch_exception_is_400 [of offline_world "lit ''123''" "lit ''456''" refused, OF disjI1 [OF m]]
      fetch_exception_is_400 [of no_download_world "lit ''123''" "lit ''456''" refused, OF disjI2 [OF h]]
    by simp
qed

text \<open>
  Claim C2 as stated fails: when the storage service refuses the connection, the
  attachment route answers 400, not 502.
\<close>

theorem storage_failure_is_not_502_counterexample:
  "analyze_attachment offline_world (lit ''123'') (lit ''456'')
     = (Response (JObj [(lit ''error'', JStr (lit ''Attachment fetch failed: connection refused''))]) 400,
        [GetAttachment (lit ''123'') (lit ''456'')])
   \<and> status_of (fst (analyze_attachment offline_world (lit ''123'') (lit ''456''))) \<noteq> 502"
  by (simp add: analyze_attachment_def fetch_block_def offline_world_def fetch_failed_def
      error_response_def refused_def lit_def)

section \<open>The extractor takes the first matching branch\<close>

text \<open>
  Claim C3. For an attachment that reaches the extractor (resolved, with a download URL,
  downloaded, not over the size limit) with MIME type \<open>ct\<close>: the extraction branches that
  run are exactly the one branch the priority list pdf, text, spreadsheet/excel,
  wordprocessingml/msword selects for \<open>ct\<close>, on the downloaded bytes, or none when no
  keyword occurs in \<open>ct\<close>; in that last case the response is 415 and its error message
  ends with \<open>ct\<close>, and nothing beyond the two storage calls has happened. A type
  in which both "text" and "spreadsheet" occur (and "pdf", which comes first, does not)
  takes the text branch.
\<close>

theorem extractor_dispatch_order:
  assumes "get_attachment w s a = Inr (Attachment att)" and "url att = Some u" and "u \<noteq> []"
    and "requests_get w (plain_get u) = Inr res"
    and "length (resp_content res) \<le> 75 * 1024 * 1024"
    and "mime_type att = Some ct"
  shows "filter is_extract (snd (analyze_attachment w s a))
           = (case first_match ct of Some b \<Rightarrow> [Extract b (resp_content res)] | None \<Rightarrow> [])
         \<and> (first_match ct = None \<longrightarrow>
              analyze_attachment w s a
                = (Response (JObj [(lit ''error'', JStr (lit ''Unsupported file type: '' @ ct))]) 415,
                   [GetAttachment s a, RequestsGet (plain_get u)]))
         \<and> (sublist (lit ''text'') ct \<and> sublist (lit ''spreadsheet'') ct \<and> \<not> sublist (lit ''pdf'') ct
              \<longrightarrow> first_match ct = Some TextBranch)"
proof -
  have f: "fetch_block w s a = (Inr (att, resp_content res), [GetAttachment s a, RequestsGet (plain_get u)])"
    using assms(1-5) by (intro fetch_block_ok) (simp_all add: size_limit_def)
  obtain r t2 where e: "extract_block w (Some ct) (resp_content res) = (r, t2)"
    by (cases "extract_block w (Some ct) (resp_content res)")
  have t2: "t2 = (case first_match ct of Some b \<Rightarrow> [Extract b (resp_content res)] | None \<Rightarrow> [])"
    using extract_block_first_match [of w ct "resp_content res"] e by simp
  have ft2: "filter is_extract t2 = t2"
    by (simp add: t2 split: option.splits)
  have m: "filter is_extract t3 = []" if "model_block w x = (rv, t3)" for x rv t3
    using that by (auto simp add: model_block_def Let_def)
  have 1: "filter is_extract (snd (analyze_attachment w s a)) = t2"
    using f e ft2 m assms(6)
    by (simp add: analyze_attachment_def split: sum.splits prod.splits)
  have 2: "analyze_attachment w s a
             = (Response (JObj [(lit ''error'', JStr (lit ''Unsupported file type: '' @ ct))]) 415,
                [GetAttachment s a, RequestsGet (plain_get u)])" if n: "first_match ct = None"
  proof -
    have "r = Inl (unsupported ct)"
      using extract_block_unsupported [OF n, of w "resp_content res"] e by simp
    moreover have "t2 = []" using t2 n by simp
    ultimately show ?thesis
      using f e assms(6) by (simp add: analyze_attachment_def unsupported_def error_response_def)
  qed
  have 3: "first_match ct = Some TextBranch"
    if "sublist (lit ''text'') ct \<and> sublist (lit ''spreadsheet'') ct \<and> \<not> sublist (lit ''pdf'') ct"
    using that by (simp add: first_match_def dispatch_order_def)
  show ?thesis using 1 t2 2 3 by blast
qed

text \<open>
  Claim C3 at the MIME types \<open>image/png\<close> (no keyword: 415) and \<open>text/spreadsheet\<close>
  (two keywords: the text branch runs).
\<close>

theorem extractor_dispatch_order_witness:
  "first_match (lit ''image/png'') = None
   \<and> analyze_attachment (serving_world (notes_txt\<lparr>mime_type := Some (lit ''image/png'')\<rparr>) [0x68, 0x69])
        (lit ''123'') (lit ''456'')
      = (Response (JObj [(lit ''error'', JStr (lit ''Unsupported file type: '' @ lit ''image/png''))]) 415,
         [GetAttachment (lit ''123'') (lit ''456''),
          RequestsGet (plain_get (lit ''https://files.example/notes.txt''))])
   \<and> sublist (lit ''text'') (lit ''text/spreadsheet'')
   \<and> sublist (lit ''spreadsheet'') (lit ''text/spreadsheet'')
   \<and> filter is_extract
        (snd (analyze_attachment
               (serving_world (notes_txt\<lparr>mime_type := Some (lit ''text/spreadsheet'')\<rparr>) [0x68, 0x69])
               (lit ''123'') (lit ''456'')))
      = [Extract TextBranch [0x68, 0x69]]"
proof -
  let ?png = "notes_txt\<lparr>mime_type := Some (lit ''image/png'')\<rparr>"
  let ?ts = "notes_txt\<lparr>mime_type := Some (lit ''text/spreadsheet'')\<rparr>"
  let ?res = "\<lparr>status_code = 200, resp_headers = [], resp_content = [0x68, 0x69 :: byte], resp_text = []\<rparr>"
  have len: "length (resp_content ?res) \<le> 75 * 1024 * 1024" by simp
  have n: "first_match (lit ''image/png'') = None"
    by (simp add: first_match_chain lit_def)
  have t: "first_match (lit ''text/spreadsheet'') = Some TextBranch"
    by (simp add: first_match_chain lit_def)
  have s1: "sublist (lit ''text'') (lit ''text/spreadsheet'')"
    unfolding py_in_sublist [symmetric] by (simp add: lit_def)
  have s2: "sublist (lit ''spreadsheet'') (lit ''text/spreadsheet'')"
    unfolding py_in_sublist [symmetric] by (simp add: lit_def)
  have a: "analyze_attachment (serving_world ?png [0x68, 0x69]) (lit ''123'') (lit ''456'')
      = (Response (JObj [(lit ''error'', JStr (lit ''Unsupported file type: '' @ lit ''image/png''))]) 415,
         [GetAttachment (lit ''123'') (lit ''456''),
          RequestsGet (plain_get (lit ''https://files.example/notes.txt''))])"
  proof -
    have u: "url ?png = Some (lit ''https://files.example/notes.txt'')"
      by (simp add: notes_txt_def)
    have g: "get_attachment (serving_world ?png [0x68, 0x69]) (lit ''123'') (lit ''456'')
               = Inr (Attachment ?png)"
      by (rule serving_world_get)
    have d: "requests_get (serving_world ?png [0x68, 0x69])
               (plain_get (lit ''https://files.example/notes.txt'')) = Inr ?res"
      by (rule serving_world_download)
    have m: "mime_type ?png = Some (lit ''image/png'')" by simp
    show ?thesis
      using extractor_dispatch_order [OF g u notes_url_nonempty d len m] n
      by simp
  qed
  have b: "filter is_extract
        (snd (analyze_attachment (serving_world ?ts [0x68, 0x69]) (lit ''123'') (lit ''456'')))
      = [Extract TextBranch [0x68, 0x69]]"
  proof -
    have u: "url ?ts = Some (lit ''https://files.example/notes.txt'')"
      by (simp add: notes_txt_def)
    have g: "get_attachment (serving_world ?ts [0x68, 0x69]) (lit ''123'') (lit ''456'')
               = Inr (Attachment ?ts)"
      by (rule serving_world_get)
    have d: "requests_get (serving_world ?ts [0x68, 0x69])
               (plain_get (lit ''https://files.example/notes.txt'')) = Inr ?res"
      by (rule serving_world_download)
    have m: "mime_type ?ts = Some (lit ''text/spreadsheet'')" by simp
    show ?thesis
      using extractor_dispatch_order [OF g u notes_url_nonempty d len m] t
      by simp
  qed
  show ?thesis using n a s1 s2 b by blast
qed

section \<open>Oversized downloads\<close>

text \<open>
  Claim C4, as amended. When the downloaded bytes are longer than 75 * 1024 * 1024, the
  trace of the attachment route holds the two storage calls only, so no extraction branch
  and no model call was attempted; and when the attachment's name is a string \<open>n\<close> and
  writing the archive entry raises no exception, the route answers 200 with the
  compression notice and the file name \<open>n\<close> followed by \<open>.zip\<close>, a body that holds no
  archive bytes.
\<close>

theorem oversize_gets_notice:
  assumes "get_attachment w s a = Inr (Attachment att)" and "url att = Some u" and "u \<noteq> []"
    and "requests_get w \<lparr>get_url = u, get_headers = [], allow_redirects = True\<rparr> = Inr res"
    and "length (resp_content res) > 75 * 1024 * 1024"
  shows "snd (analyze_attachment w s a) =
           [GetAttachment s a,
            RequestsGet \<lparr>get_url = u, get_headers = [], allow_redirects = True\<rparr>]
         \<and> (name att = Some n \<and> zip_writestr w (Some n) (resp_content res) = Inr archive \<longrightarrow>
              fst (analyze_attachment w s a) =
                Response (JObj [(lit ''note'', JStr (lit ''File was compressed due to size.'')),
                                (lit ''filename'', JStr (n @ lit ''.zip''))]) 200)"
proof -
  have f: "fetch_block w s a =
          (Inl (case zip_writestr w (name att) (resp_content res) of
                  Inl e \<Rightarrow> fetch_failed w e
                | Inr archive \<Rightarrow>
                    compression_notice (Some (format_opt (name att) @ lit ''.zip''))),
           [GetAttachment s a, RequestsGet (plain_get u)])"
    using assms by (intro fetch_block_large) (simp_all add: size_limit_def plain_get_def)
  then show ?thesis
    by (simp add: analyze_attachment_def compression_notice_def plain_get_def)
qed

text \<open>
  The amended claim C4 at a download of 75 * 1024 * 1024 + 1 bytes named \<open>notes.txt\<close>.
\<close>

theorem oversize_gets_notice_witness:
  "length big_file > 75 * 1024 * 1024
   \<and> name notes_txt = Some (lit ''notes.txt'')
   \<and> zip_writestr (serving_world notes_txt big_file) (Some (lit ''notes.txt'')) big_file = Inr big_file
   \<and> snd (analyze_attachment (serving_world notes_txt big_file) (lit ''123'') (lit ''456'')) =
        [GetAttachment (lit ''123'') (lit ''456''),
         RequestsGet \<lparr>get_url = lit ''https://files.example/notes.txt'', get_headers = [],
                      allow_redirects = True\<rparr>]
   \<and> fst (analyze_attachment (serving_world notes_txt big_file) (lit ''123'') (lit ''456'')) =
        Response (JObj [(lit ''note'', JStr (lit ''File was compressed due to size.'')),
                        (lit ''filename'', JStr (lit ''notes.txt'' @ lit ''.zip''))]) 200"
proof -
  let ?w = "serving_world notes_txt big_file"
  let ?res = "\<lparr>status_code = 200, resp_headers = [], resp_content = big_file, resp_text = []\<rparr>"
  have len: "length (resp_content ?res) > 75 * 1024 * 1024"
    by (simp add: big_file_length)
  have len': "length big_file > 75 * 1024 * 1024"
    by (simp add: big_file_length)
  have g: "get_attachment ?w (lit ''123'') (lit ''456'') = Inr (Attachment notes_txt)"
    by (rule serving_world_get)
  have d: "requests_get ?w \<lparr>get_url = lit ''https://files.example/notes.txt'', get_headers = [],
                              allow_redirects = True\<rparr> = Inr ?res"
    by (rule serving_world_download)
  have nm: "name notes_txt = Some (lit ''notes.txt'')"
    by (simp add: notes_txt_def)
  have z: "zip_writestr ?w (Some (lit ''notes.txt'')) big_file = Inr big_file"
    by (simp add: serving_world_writestr example_writestr_def lit_def)
  have z': "zip_writestr ?w (Some (lit ''notes.txt'')) (resp_content ?res) = Inr big_file"
    using z by simp
  note t = oversize_gets_notice [OF g notes_url notes_url_nonempty d len,
      of "lit ''notes.txt''" big_file]
  have tr: "snd (analyze_attachment ?w (lit ''123'') (lit ''456'')) =
        [GetAttachment (lit ''123'') (lit ''456''),
         RequestsGet \<lparr>get_url = lit ''https://files.example/notes.txt'', get_headers = [],
                      allow_redirects = True\<rparr>]"
    by (rule t [THEN conjunct1])
  have r: "fst (analyze_attachment ?w (lit ''123'') (lit ''456'')) =
        Response (JObj [(lit ''note'', JStr (lit ''File was compressed due to size.'')),
                        (lit ''filename'', JStr (lit ''notes.txt'' @ lit ''.zip''))]) 200"
    by (rule t [THEN conjunct2, THEN mp]) (intro conjI nm z')
  show ?thesis
    using len' nm z tr r by blast
qed

text \<open>
  Claim C4 as stated fails: for a download of 75 * 1024 * 1024 + 1 bytes whose attachment
  has the empty name, the archive writer raises, and the route answers 400, not the 200
  notice.
\<close>

theorem empty_name_oversize_counterexample:
  "length big_file > 75 * 1024 * 1024
   \<and> analyze_attachment (serving_world (notes_txt\<lparr>name := Some []\<rparr>) big_file)
        (lit ''123'') (lit ''456'')
      = (Response (JObj [(lit ''error'',
                          JStr (lit ''Attachment fetch failed: string index out of range''))]) 400,
         [GetAttachment (lit ''123'') (lit ''456''),
          RequestsGet \<lparr>get_url = lit ''https://files.example/notes.txt'', get_headers = [],
                       allow_redirects = True\<rparr>])"
proof -
  let ?att = "notes_txt\<lparr>name := Some []\<rparr>"
  let ?w = "serving_world ?att big_file"
  let ?res = "\<lparr>status_code = 200, resp_headers = [], resp_content = big_file, resp_text = []\<rparr>"
  have len: "size_limit < length (resp_content ?res)"
    by (simp add: big_file_length size_limit_def)
  have len': "length big_file > 75 * 1024 * 1024"
    by (simp add: big_file_length)
  have g: "get_attachment ?w (lit ''123'') (lit ''456'') = Inr (Attachment ?att)"
    by (rule serving_world_get)
  have u: "url ?att = Some (lit ''https://files.example/notes.txt'')"
    by (simp add: notes_txt_def)
  have d: "requests_get ?w (plain_get (lit ''https://files.example/notes.txt'')) = Inr ?res"
    by (rule serving_world_download)
  have z: "zip_writestr ?w (name ?att) (resp_content ?res)
             = Inl (OtherException (lit ''string index out of range''))"
    by (simp add: serving_world_writestr example_writestr_def)
  have f: "fetch_block ?w (lit ''123'') (lit ''456'') =
      (Inl (fetch_failed ?w (OtherException (lit ''string index out of range''))),
       [GetAttachment (lit ''123'') (lit ''456''),
        RequestsGet (plain_get (lit ''https://files.example/notes.txt''))])"
    using fetch_block_large [OF g u notes_url_nonempty d len] z by simp
  have r: "analyze_attachment ?w (lit ''123'') (lit ''456'')
      = (Response (JObj [(lit ''error'',
                          JStr (lit ''Attachment fetch failed: string index out of range''))]) 400,
         [GetAttachment (lit ''123'') (lit ''456''),
          RequestsGet \<lparr>get_url = lit ''https://files.example/notes.txt'', get_headers = [],
                       allow_redirects = True\<rparr>])"
    using f by (simp add: analyze_attachment_def fetch_failed_def error_response_def plain_get_def lit_def)
  show ?thesis using len' r by blast
qed

section \<open>The prompt holds the first 8000 characters\<close>



section \<open>Empty extraction result\<close>

text \<open>
  Claim C6. When the extraction branch returns the empty string without raising, the
  attachment route answers 422 and the trace of the request holds no model call.
\<close>

theorem empty_text_is_422:
  assumes "get_attachment w s a = Inr (Attachment att)" and "url att = Some u" and "u \<noteq> []"
    and "requests_get w (plain_get u) = Inr res"
    and "length (resp_content res) \<le> 75 * 1024 * 1024"
    and "extract_block w (mime_type att) (resp_content res) = (Inr [], t2)"
  shows "analyze_attachment w s a =
           (Response (JObj [(lit ''error'', JStr (lit ''Failed to extract text.''))]) 422,
            [GetAttachment s a, RequestsGet (plain_get u)] @ t2)
         \<and> \<not> list_ex is_model_call (snd (analyze_attachment w s a))"
proof -
  have f: "fetch_block w s a =
      (Inr (att, resp_content res), [GetAttachment s a, RequestsGet (plain_get u)])"
    using assms(1-5) by (intro fetch_block_ok) (simp_all add: size_limit_def)
  have r: "analyze_attachment w s a =
      (Response (JObj [(lit ''error'', JStr (lit ''Failed to extract text.''))]) 422,
       [GetAttachment s a, RequestsGet (plain_get u)] @ t2)"
    using f assms(6) by (simp add: analyze_attachment_def extract_failed_def error_response_def)
  have "\<not> list_ex is_model_call t2"
    using extract_block_no_model [of w "mime_type att" "resp_content res"] assms(6) by simp
  then show ?thesis using r by simp
qed

text \<open>
  Claim C6 at an empty text file, which decodes to the empty string.
\<close>

theorem empty_text_is_422_witness:
  "extract_block (serving_world notes_txt []) (mime_type notes_txt) [] = (Inr [], [Extract TextBranch []])
   \<and> analyze_attachment (serving_world notes_txt []) (lit ''123'') (lit ''456'') =
       (Response (JObj [(lit ''error'', JStr (lit ''Failed to extract text.''))]) 422,
        [GetAttachment (lit ''123'') (lit ''456''),
         RequestsGet (plain_get (lit ''https://files.example/notes.txt'')),
         Extract TextBranch []])
   \<and> \<not> list_ex is_model_call
        (snd (analyze_attachment (serving_world notes_txt []) (lit ''123'') (lit ''456'')))"
proof -
  let ?w = "serving_world notes_txt []"
  let ?res = "\<lparr>status_code = 200, resp_headers = [], resp_content = [] :: bytes, resp_text = []\<rparr>"
  have g: "get_attachment ?w (lit ''123'') (lit ''456'') = Inr (Attachment notes_txt)"
    by (rule serving_world_get)
  have d: "requests_get ?w (plain_get (lit ''https://files.example/notes.txt'')) = Inr ?res"
    by (rule serving_world_download)
  have len: "length (resp_content ?res) \<le> 75 * 1024 * 1024" by simp
  have e: "extract_block ?w (mime_type notes_txt) (resp_content ?res) = (Inr [], [Extract TextBranch []])"
    using serving_world_text [of notes_txt "[]" "[]"]
    by (simp add: notes_txt_def decode_utf8_def)
  show ?thesis
    using empty_text_is_422 [OF g notes_url notes_url_nonempty d len e] e by simp
qed

section \<open>Undecodable text\<close>

text \<open>
  Claim C7, as amended. For an attachment that reaches the extractor (resolved, with a
  download URL, downloaded, of at most 75 * 1024 * 1024 bytes) whose MIME type contains "text" and
  does not contain "pdf", and whose bytes are not valid UTF-8, the response is 422 with
  the decoding error in the message; the text branch is the last thing that ran.
\<close>

theorem undecodable_text_is_422:
  assumes "get_attachment w s a = Inr (Attachment att)" and "url att = Some u" and "u \<noteq> []"
    and "requests_get w (plain_get u) = Inr res"
    and "length (resp_content res) \<le> 75 * 1024 * 1024"
    and "mime_type att = Some ct"
    and "sublist (lit ''text'') ct" and "\<not> sublist (lit ''pdf'') ct"
    and "decode_utf8 (resp_content res) = None"
  shows "analyze_attachment w s a =
           (Response (JObj [(lit ''error'',
                             JStr (lit ''Document parsing failed: ''
                                   @ str_builtin w (UnicodeDecodeError (resp_content res))))]) 422,
            [GetAttachment s a, RequestsGet (plain_get u), Extract TextBranch (resp_content res)])"
proof -
  have f: "fetch_block w s a =
      (Inr (att, resp_content res), [GetAttachment s a, RequestsGet (plain_get u)])"
    using assms(1-5) by (intro fetch_block_ok) (simp_all add: size_limit_def)
  have e: "extract_block w (Some ct) (resp_content res) =
      (Inl (parsing_failed w (Builtin (UnicodeDecodeError (resp_content res)))),
       [Extract TextBranch (resp_content res)])"
    using assms(7-9) by (simp add: extract_block_def py_in_sublist)
  show ?thesis
    using f e assms(6)
    by (simp add: analyze_attachment_def parsing_failed_def error_response_def)
qed

text \<open>
  The amended claim C7 at a \<open>text/plain\<close> attachment holding the single byte FF.
\<close>

theorem undecodable_text_is_422_witness:
  "sublist (lit ''text'') (lit ''text/plain'') \<and> \<not> sublist (lit ''pdf'') (lit ''text/plain'')
   \<and> decode_utf8 [0xFF] = None
   \<and> analyze_attachment (serving_world notes_txt [0xFF]) (lit ''123'') (lit ''456'') =
       (Response (JObj [(lit ''error'',
                         JStr (lit ''Document parsing failed: ''
                               @ str_builtin (serving_world notes_txt [0xFF]) (UnicodeDecodeError [0xFF])))]) 422,
        [GetAttachment (lit ''123'') (lit ''456''),
         RequestsGet (plain_get (lit ''https://files.example/notes.txt'')),
         Extract TextBranch [0xFF]])"
proof -
  let ?w = "serving_world notes_txt [0xFF]"
  let ?res = "\<lparr>status_code = 200, resp_headers = [], resp_content = [0xFF :: byte], resp_text = []\<rparr>"
  have g: "get_attachment ?w (lit ''123'') (lit ''456'') = Inr (Attachment notes_txt)"
    by (rule serving_world_get)
  have d: "requests_get ?w (plain_get (lit ''https://files.example/notes.txt'')) = Inr ?res"
    by (rule serving_world_download)
  have len: "length (resp_content ?res) \<le> 75 * 1024 * 1024" by simp
  have m: "mime_type notes_txt = Some (lit ''text/plain'')" by (simp add: notes_txt_def)
  have s1: "sublist (lit ''text'') (lit ''text/plain'')"
    unfolding py_in_sublist [symmetric] by (simp add: lit_def)
  have s2: "\<not> sublist (lit ''pdf'') (lit ''text/plain'')"
    unfolding py_in_sublist [symmetric] by (simp add: lit_def)
  have dec: "decode_utf8 (resp_content ?res) = None"
    by (simp add: decode_utf8_def in_range_def)
  have dec': "decode_utf8 [0xFF] = None"
    using dec by simp
  have r: "analyze_attachment ?w (lit ''123'') (lit ''456'') =
       (Response (JObj [(lit ''error'',
                         JStr (lit ''Document parsing failed: ''
                               @ str_builtin ?w (UnicodeDecodeError [0xFF])))]) 422,
        [GetAttachment (lit ''123'') (lit ''456''),
         RequestsGet (plain_get (lit ''https://files.example/notes.txt'')),
         Extract TextBranch [0xFF]])"
    using undecodable_text_is_422 [OF g notes_url notes_url_nonempty d len m s1 s2 dec]
    by simp
  show ?thesis
    using s1 s2 dec' r by blast
qed

text \<open>
  Claim C7 as stated fails: a \<open>text/plain\<close> attachment of 75 * 1024 * 1024 + 1 bytes FF
  is not valid UTF-8, and the response is the compression notice with status 200,
  because the size guard answers before any byte is decoded.
\<close>

theorem oversize_undecodable_text_counterexample:
  "sublist (lit ''text'') (lit ''text/plain'')
   \<and> decode_utf8 big_file = None
   \<and> analyze_attachment (serving_world notes_txt big_file) (lit ''123'') (lit ''456'')
      = (Response (JObj [(lit ''note'', JStr (lit ''File was compressed due to size.'')),
                         (lit ''filename'', JStr (lit ''notes.txt.zip''))]) 200,
         [GetAttachment (lit ''123'') (lit ''456''),
          RequestsGet \<lparr>get_url = lit ''https://files.example/notes.txt'', get_headers = [],
                       allow_redirects = True\<rparr>])"
proof -
  let ?w = "serving_world notes_txt big_file"
  let ?res = "\<lparr>status_code = 200, resp_headers = [], resp_content = big_file, resp_text = []\<rparr>"
  have s1: "sublist (lit ''text'') (lit ''text/plain'')"
    unfolding py_in_sublist [symmetric] by (simp add: lit_def)
  have len: "size_limit < length (resp_content ?res)"
    by (simp add: big_file_length size_limit_def)
  have g: "get_attachment ?w (lit ''123'') (lit ''456'') = Inr (Attachment notes_txt)"
    by (rule serving_world_get)
  have d: "requests_get ?w (plain_get (lit ''https://files.example/notes.txt'')) = Inr ?res"
    by (rule serving_world_download)
  have z: "zip_writestr ?w (name notes_txt) (resp_content ?res) = Inr big_file"
    by (simp add: serving_world_writestr example_writestr_def notes_txt_def lit_def)
  have f: "fetch_block ?w (lit ''123'') (lit ''456'') =
      (Inl (compression_notice (Some (format_opt (name notes_txt) @ lit ''.zip''))),
       [GetAttachment (lit ''123'') (lit ''456''),
        RequestsGet (plain_get (lit ''https://files.example/notes.txt''))])"
    using fetch_block_large [OF g notes_url notes_url_nonempty d len] z by simp
  have r: "analyze_attachment ?w (lit ''123'') (lit ''456'')
      = (Response (JObj [(lit ''note'', JStr (lit ''File was compressed due to size.'')),
                         (lit ''filename'', JStr (lit ''notes.txt.zip''))]) 200,
         [GetAttachment (lit ''123'') (lit ''456''),
          RequestsGet \<lparr>get_url = lit ''https://files.example/notes.txt'', get_headers = [],
                       allow_redirects = True\<rparr>])"
    using f by (simp add: analyze_attachment_def compression_notice_def plain_get_def notes_txt_def lit_def)
  show ?thesis using s1 big_file_undecodable r by blast
qed

section \<open>Attachment without a download URL\<close>

text \<open>
  Claim C8. When the metadata resolves to an attachment whose URL is \<open>None\<close> or empty,
  the attachment route answers 404, and the metadata call is the only outbound call: no
  download was attempted.
\<close>

theorem missing_url_is_404:
  assumes "get_attachment w s a = Inr (Attachment att)"
    and "url att = None \<or> url att = Some []"
  shows "analyze_attachment w s a =
           (Response (JObj [(lit ''error'', JStr (lit ''Attachment object missing URL.''))]) 404,
            [GetAttachment s a])"
  using assms
  by (auto simp add: analyze_attachment_def fetch_block_def missing_url_def error_response_def)

text \<open>
  Claim C8 at an attachment without a URL and at one with the empty URL.
\<close>

theorem missing_url_is_404_witness:
  "url (notes_txt\<lparr>url := None\<rparr>) = None
   \<and> analyze_attachment (serving_world (notes_txt\<lparr>url := None\<rparr>) [0x68, 0x69]) (lit ''123'') (lit ''456'') =
       (Response (JObj [(lit ''error'', JStr (lit ''Attachment object missing URL.''))]) 404,
        [GetAttachment (lit ''123'') (lit ''456'')])
   \<and> url (notes_txt\<lparr>url := Some []\<rparr>) = Some []
   \<and> analyze_attachment (serving_world (notes_txt\<lparr>url := Some []\<rparr>) [0x68, 0x69]) (lit ''123'') (lit ''456'') =
       (Response (JObj [(lit ''error'', JStr (lit ''Attachment object missing URL.''))]) 404,
        [GetAttachment (lit ''123'') (lit ''456'')])"
proof -
  have g1: "get_attachment (serving_world (notes_txt\<lparr>url := None\<rparr>) [0x68, 0x69]) (lit ''123'') (lit ''456'')
      = Inr (Attachment (notes_txt\<lparr>url := None\<rparr>))"
    by (rule serving_world_get)
  have g2: "get_attachment (serving_world (notes_txt\<lparr>url := Some []\<rparr>) [0x68, 0x69]) (lit ''123'') (lit ''456'')
      = Inr (Attachment (notes_txt\<lparr>url := Some []\<rparr>))"
    by (rule serving_world_get)
  have u1: "url (notes_txt\<lparr>url := None\<rparr>) = None \<or> url (notes_txt\<lparr>url := None\<rparr>) = Some []"
    by simp
  have u2: "url (notes_txt\<lparr>url := Some []\<rparr>) = None \<or> url (notes_txt\<lparr>url := Some []\<rparr>) = Some []"
    by simp
  show ?thesis
    using missing_url_is_404 [OF g1 u1] missing_url_is_404 [OF g2 u2] by simp
qed

section \<open>Buffers within the size limit\<close>

text \<open>
  Claim C9. For a buffer of at most 75 * 1024 * 1024 bytes the size guard returns the
  buffer itself, no compressed type and no archived name; and the first block of the
  attachment route then hands the downloaded bytes, unchanged, to the extractor.
\<close>

theorem small_buffer_passes_through:
  "(length file_bytes \<le> 75 * 1024 * 1024 \<longrightarrow>
      compress_if_large w file_bytes filename = Inr (file_bytes, None, None))
   \<and> (get_attachment w s a = Inr (Attachment att) \<and> url att = Some u \<and> u \<noteq> []
      \<and> requests_get w (plain_get u) = Inr res
      \<and> length (resp_content res) \<le> 75 * 1024 * 1024
      \<longrightarrow> fetch_block w s a =
            (Inr (att, resp_content res), [GetAttachment s a, RequestsGet (plain_get u)]))"
  by (simp add: compress_if_large_def size_limit_def fetch_block_def)

text \<open>
  Claim C9 at a buffer of exactly 75 * 1024 * 1024 bytes, and at a two-byte download.
\<close>

theorem small_buffer_passes_through_witness:
  "length (replicate (75 * 1024 * 1024) (0 :: byte)) \<le> 75 * 1024 * 1024
   \<and> compress_if_large offline_world (replicate (75 * 1024 * 1024) 0) (Some (lit ''notes.txt''))
       = Inr (replicate (75 * 1024 * 1024) 0, None, None)
   \<and> fetch_block (serving_world notes_txt [0x68, 0x69]) (lit ''123'') (lit ''456'') =
       (Inr (notes_txt, [0x68, 0x69]),
        [GetAttachment (lit ''123'') (lit ''456''),
         RequestsGet (plain_get (lit ''https://files.example/notes.txt''))])"
proof -
  let ?w = "serving_world notes_txt [0x68, 0x69]"
  let ?res = "\<lparr>status_code = 200, resp_headers = [], resp_content = [0x68, 0x69 :: byte], resp_text = []\<rparr>"
  have g: "get_attachment ?w (lit ''123'') (lit ''456'') = Inr (Attachment notes_txt)"
    by (rule serving_world_get)
  have d: "requests_get ?w (plain_get (lit ''https://files.example/notes.txt'')) = Inr ?res"
    by (rule serving_world_download)
  have len: "length (resp_content ?res) \<le> 75 * 1024 * 1024" by simp
  have big: "length (replicate (75 * 1024 * 1024) (0 :: byte)) \<le> 75 * 1024 * 1024"
    by (simp only: length_replicate order_refl)
  have 1: "compress_if_large offline_world (replicate (75 * 1024 * 1024) 0) (Some (lit ''notes.txt''))
       = Inr (replicate (75 * 1024 * 1024) 0, None, None)"
    using small_buffer_passes_through
      [of "replicate (75 * 1024 * 1024) 0" offline_world "Some (lit ''notes.txt'')"] big by blast
  have 2: "fetch_block ?w (lit ''123'') (lit ''456'') =
       (Inr (notes_txt, resp_content ?res),
        [GetAttachment (lit ''123'') (lit ''456''),
         RequestsGet (plain_get (lit ''https://files.example/notes.txt''))])"
    using small_buffer_passes_through
      [where w = ?w and s = "lit ''123''" and a = "lit ''456''" and att = notes_txt
         and u = "lit ''https://files.example/notes.txt''" and res = ?res]
      g notes_url notes_url_nonempty d len by blast
  show ?thesis using big 1 2 by simp
qed

section \<open>The gate when no secret is configured\<close>

text \<open>
  Claim C10. With the secret unset, a request to a route other than the liveness route
  that carries no X-Internal-Access header passes the gate: \<open>auth_check\<close> returns nothing,
  the request goes on to dispatch, and the view bound to the route is called.
\<close>

theorem unset_secret_admits_missing_header:
  assumes "SECRET_CODE cfg = None" and "x_internal_access req = None"
    and "endpoint req \<noteq> Healthcheck"
  shows "auth_check cfg req = None
         \<and> full_dispatch_request cfg w req = dispatch_request cfg w req
         \<and> (has_view (endpoint req) \<longrightarrow> ViewCalled \<in> set (snd (full_dispatch_request cfg w req)))"
proof -
  have g: "auth_check cfg req = None"
    using assms by (simp add: auth_check_def)
  then have f: "full_dispatch_request cfg w req = dispatch_request cfg w req"
    by (simp add: full_dispatch_request_def)
  have "ViewCalled \<in> set (snd (dispatch_request cfg w req))" if "has_view (endpoint req)"
    using that by (cases "endpoint req") (simp_all add: dispatch_request_def split_beta)
  then show ?thesis using g f by simp
qed

text \<open>
  Claim C10 at a request to the attachment route.
\<close>

theorem unset_secret_admits_missing_header_witness:
  "SECRET_CODE unset_secret = None
   \<and> auth_check unset_secret
       \<lparr>endpoint = AnalyzeAttachment (lit ''123'') (lit ''456''), x_internal_access = None\<rparr> = None
   \<and> full_dispatch_request unset_secret (serving_world notes_txt [0x68, 0x69])
       \<lparr>endpoint = AnalyzeAttachment (lit ''123'') (lit ''456''), x_internal_access = None\<rparr>
     = dispatch_request unset_secret (serving_world notes_txt [0x68, 0x69])
         \<lparr>endpoint = AnalyzeAttachment (lit ''123'') (lit ''456''), x_internal_access = None\<rparr>
   \<and> ViewCalled \<in> set (snd (full_dispatch_request unset_secret (serving_world notes_txt [0x68, 0x69])
       \<lparr>endpoint = AnalyzeAttachment (lit ''123'') (lit ''456''), x_internal_access = None\<rparr>))"
proof -
  let ?r = "\<lparr>endpoint = AnalyzeAttachment (lit ''123'') (lit ''456''), x_internal_access = None\<rparr>"
  have s: "SECRET_CODE unset_secret = None" by (simp add: unset_secret_def)
  have x: "x_internal_access ?r = None" by simp
  have e: "endpoint ?r \<noteq> Healthcheck" by simp
  have v: "has_view (endpoint ?r)" by simp
  show ?thesis
    using unset_secret_admits_missing_header [OF s x e, of "serving_world notes_txt [0x68, 0x69]"] s v
    by blast
qed

end
